theory Spec2Isabelle
  imports Complex_Main "HOL-Library.Char_ord" "HOL-Library.List_Lexorder"
begin

section \<open>Federation member-cluster client: endpoint, credentials, health, topology\<close>

text \<open>
  A shallow embedding of the Go package \<^verbatim>\<open>cluster\<close> (the cluster client of the
  federation controller). Go's \<^verbatim>\<open>error\<close> values are modelled by their message, a
  pointer that may be \<^verbatim>\<open>nil\<close> by an \<open>option\<close>, a Go map by a partial function, a
  result pair \<^verbatim>\<open>(value, err)\<close> of a library call by a sum (\<open>Inl\<close> the error), and the
  result tuple of the functions of this package by the tuple itself, so that what is
  returned beside an error stays visible. Strings are byte strings, ordered bytewise
  as Go's \<^verbatim>\<open><\<close> on strings orders them.
\<close>

subsection \<open>Errors and constants\<close>

datatype error = Error (message: string)

definition UserAgentName :: string where
  "UserAgentName = ''Cluster-Controller''"

definition KubeAPIQPS :: real where
  "KubeAPIQPS = 20"

definition KubeAPIBurst :: int where
  "KubeAPIBurst = 30"

definition KubeconfigSecretDataKey :: string where
  "KubeconfigSecretDataKey = ''kubeconfig''"

subsection \<open>Topology discovery\<close>

text \<open>
  A node as far as this package reads it: its name and its label map. The two label
  keys are constants of the package \<^verbatim>\<open>unversioned\<close>, which is not part of the
  repository; they are parameters of the model.
\<close>

record Node =
  Name :: string
  Labels :: "string \<rightharpoonup> string"

record label_keys =
  LabelZoneFailureDomain :: string
  LabelZoneRegion :: string

text \<open>
  \<^verbatim>\<open>getZoneNameForNode\<close> ranges over the label map and returns the value stored under
  the zone key; keys of a Go map are unique, so the loop is a lookup.
\<close>

definition getZoneNameForNode :: "label_keys \<Rightarrow> Node \<Rightarrow> error + string" where
  "getZoneNameForNode L node =
     (case Labels node (LabelZoneFailureDomain L) of
        Some v \<Rightarrow> Inr v
      | None \<Rightarrow> Inl (Error (''Zone name for node '' @ Name node @
                  '' not found. No label with key '' @ LabelZoneFailureDomain L)))"

definition getRegionNameForNode :: "label_keys \<Rightarrow> Node \<Rightarrow> error + string" where
  "getRegionNameForNode L node =
     (case Labels node (LabelZoneRegion L) of
        Some v \<Rightarrow> Inr v
      | None \<Rightarrow> Inl (Error (''Region name for node '' @ Name node @
                  '' not found. No label with key '' @ LabelZoneRegion L)))"

text \<open>
  \<^verbatim>\<open>sets.String\<close> is a set of strings; its \<^verbatim>\<open>List\<close> method returns the members
  sorted.
\<close>

definition sets_List :: "string set \<Rightarrow> string list" where
  "sets_List s = sorted_list_of_set s"

text \<open>
  The result triple \<^verbatim>\<open>(zones, region, err)\<close> of \<^verbatim>\<open>getZoneNames\<close>; \<open>None\<close> in the
  first component is the \<^verbatim>\<open>nil\<close> slice, \<open>None\<close> in the third is the \<^verbatim>\<open>nil\<close>
  error.
\<close>

type_synonym zones_result = "string list option \<times> string \<times> error option"

text \<open>
  The body of the \<^verbatim>\<open>for i, node := range nodes.Items\<close> loop: \<open>i\<close> is the index,
  \<open>zoneNames\<close> the set built so far, \<open>region\<close> the named result variable.
\<close>

fun zoneNamesLoop :: "label_keys \<Rightarrow> nat \<Rightarrow> Node list \<Rightarrow> string set \<Rightarrow> string \<Rightarrow> zones_result" where
  "zoneNamesLoop L i [] zoneNames region = (Some (sets_List zoneNames), region, None)"
| "zoneNamesLoop L i (node # nodes) zoneNames region =
     (case getZoneNameForNode L node of
        Inl err \<Rightarrow> (None, [], Some err)
      | Inr zoneName \<Rightarrow>
          (if i = 0 then
             (case getRegionNameForNode L node of
                Inl err \<Rightarrow> (None, [], Some err)
              | Inr region' \<Rightarrow> zoneNamesLoop L (i + 1) nodes (insert zoneName zoneNames) region')
           else zoneNamesLoop L (i + 1) nodes (insert zoneName zoneNames) region))"

text \<open>
  \<^verbatim>\<open>getZoneNames\<close>: the argument is the result of the node listing call
  \<^verbatim>\<open>client.Core().Nodes().List\<close>.
\<close>

definition getZoneNames :: "label_keys \<Rightarrow> error + Node list \<Rightarrow> zones_result" where
  "getZoneNames L listed =
     (case listed of
        Inl err \<Rightarrow> (None, [], Some err)
      | Inr items \<Rightarrow> zoneNamesLoop L 0 items {} [])"

text \<open>Whether a node carries a label, and the label's value when it does.\<close>

definition hasZone :: "label_keys \<Rightarrow> Node \<Rightarrow> bool" where
  "hasZone L node = (Labels node (LabelZoneFailureDomain L) \<noteq> None)"

definition hasRegion :: "label_keys \<Rightarrow> Node \<Rightarrow> bool" where
  "hasRegion L node = (Labels node (LabelZoneRegion L) \<noteq> None)"

definition zoneOf :: "label_keys \<Rightarrow> Node \<Rightarrow> string" where
  "zoneOf L node = the (Labels node (LabelZoneFailureDomain L))"

definition regionOf :: "label_keys \<Rightarrow> Node \<Rightarrow> string" where
  "regionOf L node = the (Labels node (LabelZoneRegion L))"

text \<open>The two error values of the label lookups, by node.\<close>

definition zoneError :: "label_keys \<Rightarrow> Node \<Rightarrow> error" where
  "zoneError L node = Error (''Zone name for node '' @ Name node @
                  '' not found. No label with key '' @ LabelZoneFailureDomain L)"

definition regionError :: "label_keys \<Rightarrow> Node \<Rightarrow> error" where
  "regionError L node = Error (''Region name for node '' @ Name node @
                  '' not found. No label with key '' @ LabelZoneRegion L)"

subsection \<open>Health probe\<close>

datatype ClusterConditionType = ClusterReady | ClusterOffline

datatype ConditionStatus = ConditionTrue | ConditionFalse | ConditionUnknown

record 'time ClusterCondition =
  Type :: ClusterConditionType
  Status :: ConditionStatus
  Reason :: string
  Message :: string
  LastProbeTime :: 'time
  LastTransitionTime :: 'time

record 'time ClusterStatus =
  Conditions :: "'time ClusterCondition list"

text \<open>The four condition values that \<^verbatim>\<open>GetClusterHealthStatus\<close> prepares.\<close>

definition newClusterReadyCondition :: "'time \<Rightarrow> 'time ClusterCondition" where
  "newClusterReadyCondition currentTime =
     \<lparr>Type = ClusterReady, Status = ConditionTrue, Reason = ''ClusterReady'',
      Message = ''/healthz responded with ok'',
      LastProbeTime = currentTime, LastTransitionTime = currentTime\<rparr>"

definition newClusterNotReadyCondition :: "'time \<Rightarrow> 'time ClusterCondition" where
  "newClusterNotReadyCondition currentTime =
     \<lparr>Type = ClusterReady, Status = ConditionFalse, Reason = ''ClusterNotReady'',
      Message = ''/healthz responded without ok'',
      LastProbeTime = currentTime, LastTransitionTime = currentTime\<rparr>"

definition newNodeOfflineCondition :: "'time \<Rightarrow> 'time ClusterCondition" where
  "newNodeOfflineCondition currentTime =
     \<lparr>Type = ClusterOffline, Status = ConditionTrue, Reason = ''ClusterNotReachable'',
      Message = ''cluster is not reachable'',
      LastProbeTime = currentTime, LastTransitionTime = currentTime\<rparr>"

definition newNodeNotOfflineCondition :: "'time \<Rightarrow> 'time ClusterCondition" where
  "newNodeNotOfflineCondition currentTime =
     \<lparr>Type = ClusterOffline, Status = ConditionFalse, Reason = ''ClusterReachable'',
      Message = ''cluster is reachable'',
      LastProbeTime = currentTime, LastTransitionTime = currentTime\<rparr>"

text \<open>
  \<^verbatim>\<open>GetClusterHealthStatus\<close>. Its inputs are the library function
  \<^verbatim>\<open>strings.EqualFold\<close> (a parameter: its Unicode tables are not part of the
  repository), the value of \<^verbatim>\<open>unversioned.Now()\<close>, and the pair \<^verbatim>\<open>(body, err)\<close> that
  the request to \<^verbatim>\<open>/healthz\<close> returned. The conditions are appended to the empty
  sequence of a fresh status.
\<close>

definition GetClusterHealthStatus ::
  "(string \<Rightarrow> string \<Rightarrow> bool) \<Rightarrow> 'time \<Rightarrow> string \<times> error option \<Rightarrow> 'time ClusterStatus" where
  "GetClusterHealthStatus EqualFold currentTime raw =
     (let clusterStatus = \<lparr>Conditions = []\<rparr>; body = fst raw; err = snd raw in
      if err \<noteq> None then
        clusterStatus\<lparr>Conditions := Conditions clusterStatus @ [newNodeOfflineCondition currentTime]\<rparr>
      else if \<not> EqualFold body ''ok'' then
        clusterStatus\<lparr>Conditions := Conditions clusterStatus @
          [newClusterNotReadyCondition currentTime, newNodeNotOfflineCondition currentTime]\<rparr>
      else
        clusterStatus\<lparr>Conditions := Conditions clusterStatus @ [newClusterReadyCondition currentTime]\<rparr>)"

text \<open>The type and the status of each condition of a status, in order.\<close>

definition conditionSet :: "'time ClusterStatus \<Rightarrow> (ClusterConditionType \<times> ConditionStatus) list" where
  "conditionSet st = map (\<lambda>c. (Type c, Status c)) (Conditions st)"

text \<open>
  \<^verbatim>\<open>strings.EqualFold\<close> on strings of ASCII bytes: the branches the library takes
  for runes below \<^verbatim>\<open>utf8.RuneSelf\<close> (equal runes, or an upper-case letter and its
  lower-case form). Used to run the probe on concrete bodies.
\<close>

fun EqualFold_ascii :: "string \<Rightarrow> string \<Rightarrow> bool" where
  "EqualFold_ascii [] t = (t = [])"
| "EqualFold_ascii (sr # s) [] = False"
| "EqualFold_ascii (sr # s) (tr # t) =
     (if tr = sr then EqualFold_ascii s t
      else
        (let lo = (if tr < sr then tr else sr); hi = (if tr < sr then sr else tr) in
         if CHR ''A'' \<le> lo \<and> lo \<le> CHR ''Z'' \<and> (of_char hi :: nat) = of_char lo + 32
         then EqualFold_ascii s t else False))"

subsection \<open>Credential resolver\<close>

record Secret =
  Data :: "string \<rightharpoonup> string"

record LocalObjectReference =
  RefName :: string

record ServerAddressByClientCIDR =
  ClientCIDR :: string
  ServerAddress :: string

record ClusterSpec =
  ServerAddressByClientCIDRs :: "ServerAddressByClientCIDR list"
  SecretRef :: LocalObjectReference

record Cluster =
  Spec :: ClusterSpec

text \<open>
  What the default getter calls outside the package: the environment, the in-cluster
  client constructor, the secret lookup of that client (by namespace and name) and the
  kubeconfig loader. \<open>RefName\<close> is the field \<^verbatim>\<open>Name\<close> of the secret reference.
\<close>

record ('cl, 'cfg) getter_env =
  Getenv :: "string \<Rightarrow> string"
  NewInCluster :: "error + 'cl"
  SecretsGet :: "'cl \<Rightarrow> string \<Rightarrow> string \<Rightarrow> error + Secret"
  Load :: "string \<Rightarrow> error + 'cfg"

definition KubeconfigGetterForCluster ::
  "('cl, 'cfg) getter_env \<Rightarrow> Cluster \<Rightarrow> unit \<Rightarrow> error + 'cfg" where
  "KubeconfigGetterForCluster env c = (\<lambda>_.
     (let namespace = Getenv env ''POD_NAMESPACE'' in
      if namespace = [] then
        Inl (Error ''unexpected: POD_NAMESPACE env var returned empty string'')
      else
        (case NewInCluster env of
           Inl err \<Rightarrow> Inl (Error (''error in creating in-cluster client: '' @ message err))
         | Inr client \<Rightarrow>
             (case SecretsGet env client namespace (RefName (SecretRef (Spec c))) of
                Inl err \<Rightarrow> Inl (Error (''error in fetching secret: '' @ message err))
              | Inr secret \<Rightarrow>
                  (case Data secret KubeconfigSecretDataKey of
                     None \<Rightarrow> Inl (Error (''secret does not have data with key: '' @
                                          KubeconfigSecretDataKey))
                   | Some data \<Rightarrow> Load env data)))))"

subsection \<open>Cluster client factory\<close>

datatype 'a may_panic = Panics | Returns 'a

record ('dc, 'kc) ClusterClient =
  discoveryClient :: "'dc option"
  kubeClient :: "'kc option"

text \<open>
  The connection profile \<^verbatim>\<open>restclient.Config\<close>: the two fields this package writes,
  and the rest of it.
\<close>

record 'rc Config =
  QPS :: real
  Burst :: int
  profile :: 'rc

text \<open>
  What \<^verbatim>\<open>NewClusterClientSet\<close> calls outside the package: the host address lookup,
  the CIDR parser and the network's membership test, the current value of the package
  variable \<^verbatim>\<open>KubeconfigGetterForCluster\<close>, the profile builder, the user agent
  setter and the two client constructors, which panic instead of returning an error.
\<close>

record ('ip, 'net, 'cfg, 'rc, 'dc, 'kc) client_env =
  ChooseHostInterface :: "error + 'ip"
  ParseCIDR :: "string \<Rightarrow> error + 'net"
  Contains :: "'net \<Rightarrow> 'ip \<Rightarrow> bool"
  KubeconfigGetterVar :: "Cluster \<Rightarrow> unit \<Rightarrow> error + 'cfg"
  ClientConfig :: "string \<Rightarrow> 'cfg \<Rightarrow> error + 'rc Config"
  AddUserAgent :: "'rc Config \<Rightarrow> string \<Rightarrow> 'rc Config"
  NewDiscoveryClientForConfigOrDie :: "'rc Config \<Rightarrow> 'dc option may_panic"
  NewForConfigOrDie :: "'rc Config \<Rightarrow> 'kc option may_panic"

text \<open>
  Modelled from the spec: \<^verbatim>\<open>clientcmd.BuildConfigFromKubeconfigGetter\<close>, a function
  of the client library that is not in the repository. It invokes the credential
  resolver and builds the base connection profile from the endpoint and the credentials;
  a failure of the resolver is the failure of the build.
\<close>

definition BuildConfigFromKubeconfigGetter ::
  "('ip, 'net, 'cfg, 'rc, 'dc, 'kc) client_env \<Rightarrow> string \<Rightarrow> (unit \<Rightarrow> error + 'cfg)
     \<Rightarrow> error + 'rc Config" where
  "BuildConfigFromKubeconfigGetter env masterUrl kubeconfigGetter =
     (case kubeconfigGetter () of
        Inl err \<Rightarrow> Inl err
      | Inr cfg \<Rightarrow> ClientConfig env masterUrl cfg)"

text \<open>
  The loop over \<^verbatim>\<open>c.Spec.ServerAddressByClientCIDRs\<close>: the value of
  \<^verbatim>\<open>serverAddress\<close> when the loop is left, or the parse error that ends the function.
  The address \<^verbatim>\<open>myaddr\<close> is the host address printed and parsed again, that is the
  host address.
\<close>

fun serverAddressLoop ::
  "('ip, 'net, 'cfg, 'rc, 'dc, 'kc) client_env \<Rightarrow> 'ip \<Rightarrow> ServerAddressByClientCIDR list
     \<Rightarrow> error + string" where
  "serverAddressLoop env hostIP [] = Inr []"
| "serverAddressLoop env hostIP (item # items) =
     (case ParseCIDR env (ClientCIDR item) of
        Inl err \<Rightarrow> Inl err
      | Inr cidrnet \<Rightarrow>
          (if Contains env cidrnet hostIP then Inr (ServerAddress item)
           else serverAddressLoop env hostIP items))"

text \<open>
  \<^verbatim>\<open>NewClusterClientSet\<close>: the pair \<^verbatim>\<open>(client, err)\<close> it returns, \<open>None\<close> for
  \<^verbatim>\<open>nil\<close>, or the panic of a client constructor. The \<^verbatim>\<open>err\<close> of the last
  \<^verbatim>\<open>return\<close> is the one of the host address lookup, which is \<^verbatim>\<open>nil\<close> there.
\<close>

definition NewClusterClientSet ::
  "('ip, 'net, 'cfg, 'rc, 'dc, 'kc) client_env \<Rightarrow> Cluster
     \<Rightarrow> (('dc, 'kc) ClusterClient option \<times> error option) may_panic" where
  "NewClusterClientSet env c =
     (case ChooseHostInterface env of
        Inl err \<Rightarrow> Returns (None, Some err)
      | Inr hostIP \<Rightarrow>
          (case serverAddressLoop env hostIP (ServerAddressByClientCIDRs (Spec c)) of
             Inl err \<Rightarrow> Returns (None, Some err)
           | Inr serverAddress \<Rightarrow>
               (let clusterClientSet = \<lparr>discoveryClient = None, kubeClient = None\<rparr> in
                if serverAddress \<noteq> [] then
                  (case BuildConfigFromKubeconfigGetter env serverAddress
                          (KubeconfigGetterVar env c) of
                     Inl err \<Rightarrow> Returns (None, Some err)
                   | Inr clusterConfig \<Rightarrow>
                       (let clusterConfig = clusterConfig\<lparr>QPS := KubeAPIQPS\<rparr>;
                            clusterConfig = clusterConfig\<lparr>Burst := KubeAPIBurst\<rparr>;
                            clusterConfig = AddUserAgent env clusterConfig UserAgentName in
                        (case NewDiscoveryClientForConfigOrDie env clusterConfig of
                           Panics \<Rightarrow> Panics
                         | Returns d \<Rightarrow>
                             (let clusterClientSet = clusterClientSet\<lparr>discoveryClient := d\<rparr> in
                              if discoveryClient clusterClientSet = None then Returns (None, None)
                              else
                                (let clusterConfig = AddUserAgent env clusterConfig UserAgentName in
                                 (case NewForConfigOrDie env clusterConfig of
                                    Panics \<Rightarrow> Panics
                                  | Returns k \<Rightarrow>
                                      (let clusterClientSet = clusterClientSet\<lparr>kubeClient := k\<rparr> in
                                       if kubeClient clusterClientSet = None then Returns (None, None)
                                       else Returns (Some clusterClientSet, None))))))))
                else Returns (Some clusterClientSet, None))))"

text \<open>Whether a CIDR string parses, and whether it parses to a network that contains an address.\<close>

definition cidrParses :: "('ip, 'net, 'cfg, 'rc, 'dc, 'kc) client_env \<Rightarrow> string \<Rightarrow> bool" where
  "cidrParses env s = (case ParseCIDR env s of Inl _ \<Rightarrow> False | Inr _ \<Rightarrow> True)"

definition cidrContains :: "('ip, 'net, 'cfg, 'rc, 'dc, 'kc) client_env \<Rightarrow> 'ip \<Rightarrow> string \<Rightarrow> bool" where
  "cidrContains env hostIP s =
     (case ParseCIDR env s of Inl _ \<Rightarrow> False | Inr cidrnet \<Rightarrow> Contains env cidrnet hostIP)"

subsection \<open>Concrete inputs\<close>

text \<open>
  The label keys as the package \<^verbatim>\<open>unversioned\<close> of the client library declares them,
  and three kinds of node: with both labels, with the zone label only, with no label.
\<close>

definition unversioned_keys :: label_keys where
  "unversioned_keys =
     \<lparr>LabelZoneFailureDomain = ''failure-domain.beta.kubernetes.io/zone'',
      LabelZoneRegion = ''failure-domain.beta.kubernetes.io/region''\<rparr>"

definition fullNode :: "string \<Rightarrow> string \<Rightarrow> string \<Rightarrow> Node" where
  "fullNode name zone region =
     \<lparr>Name = name,
      Labels = [''failure-domain.beta.kubernetes.io/zone'' \<mapsto> zone,
                ''failure-domain.beta.kubernetes.io/region'' \<mapsto> region]\<rparr>"

definition zonedNode :: "string \<Rightarrow> string \<Rightarrow> Node" where
  "zonedNode name zone =
     \<lparr>Name = name, Labels = [''failure-domain.beta.kubernetes.io/zone'' \<mapsto> zone]\<rparr>"

definition bareNode :: "string \<Rightarrow> Node" where
  "bareNode name = \<lparr>Name = name, Labels = Map.empty\<rparr>"

text \<open>
  A getter environment in which the namespace variable has a given value, the in-cluster
  client is built, and the secret lookup has a given result; the kubeconfig document is
  kept as its text.
\<close>

definition getter_env_of :: "string \<Rightarrow> error + Secret \<Rightarrow> (unit, string) getter_env" where
  "getter_env_of namespace fetched =
     \<lparr>Getenv = (\<lambda>key. if key = ''POD_NAMESPACE'' then namespace else []),
      NewInCluster = Inr (),
      SecretsGet = (\<lambda>client ns name. fetched),
      Load = (\<lambda>data. Inr data)\<rparr>"

definition cluster_of :: "ServerAddressByClientCIDR list \<Rightarrow> Cluster" where
  "cluster_of pairs =
     \<lparr>Spec = \<lparr>ServerAddressByClientCIDRs = pairs, SecretRef = \<lparr>RefName = ''member-secret''\<rparr>\<rparr>\<rparr>"

text \<open>
  The network library on IPv4 addresses in dotted decimal form: an address is its 32-bit
  number, a network is its base address and prefix length, \<^verbatim>\<open>net.ParseCIDR\<close> reads
  \<^verbatim>\<open>a.b.c.d/n\<close> and fails with the library's parse error on anything else, and
  \<^verbatim>\<open>Contains\<close> compares the first \<open>n\<close> bits.
\<close>

definition digitVal :: "char \<Rightarrow> int option" where
  "digitVal c = (if CHR ''0'' \<le> c \<and> c \<le> CHR ''9'' then Some (of_char c - 48) else None)"

fun decimal :: "int \<Rightarrow> string \<Rightarrow> int option" where
  "decimal n [] = Some n"
| "decimal n (c # cs) = (case digitVal c of None \<Rightarrow> None | Some d \<Rightarrow> decimal (10 * n + d) cs)"

definition dtoi :: "string \<Rightarrow> int option" where
  "dtoi s = (if s = [] then None else decimal 0 s)"

fun splitOn :: "char \<Rightarrow> string \<Rightarrow> string list" where
  "splitOn sep [] = [[]]"
| "splitOn sep (c # cs) =
     (if c = sep then [] # splitOn sep cs
      else (case splitOn sep cs of [] \<Rightarrow> [[c]] | w # ws \<Rightarrow> (c # w) # ws))"

definition ipv4 :: "int \<Rightarrow> int \<Rightarrow> int \<Rightarrow> int \<Rightarrow> int" where
  "ipv4 a b c d = ((a * 256 + b) * 256 + c) * 256 + d"

definition parseIPv4 :: "string \<Rightarrow> int option" where
  "parseIPv4 s =
     (case map dtoi (splitOn CHR ''.'' s) of
        [Some a, Some b, Some c, Some d] \<Rightarrow>
          if a \<le> 255 \<and> b \<le> 255 \<and> c \<le> 255 \<and> d \<le> 255 then Some (ipv4 a b c d) else None
      | _ \<Rightarrow> None)"

definition ParseCIDR_ipv4 :: "string \<Rightarrow> error + int \<times> int" where
  "ParseCIDR_ipv4 s =
     (case splitOn CHR ''/'' s of
        [addr, prefix] \<Rightarrow>
          (case (parseIPv4 addr, dtoi prefix) of
             (Some ip, Some n) \<Rightarrow>
               if n \<le> 32 then Inr (ip div 2 ^ nat (32 - n) * 2 ^ nat (32 - n), n)
               else Inl (Error (''invalid CIDR address: '' @ s))
           | _ \<Rightarrow> Inl (Error (''invalid CIDR address: '' @ s)))
      | _ \<Rightarrow> Inl (Error (''invalid CIDR address: '' @ s)))"

definition Contains_ipv4 :: "int \<times> int \<Rightarrow> int \<Rightarrow> bool" where
  "Contains_ipv4 cidrnet ip =
     (ip div 2 ^ nat (32 - snd cidrnet) = fst cidrnet div 2 ^ nat (32 - snd cidrnet))"

text \<open>
  A client environment over that network library, with a given result of the host
  address lookup and a given value of the getter variable. A connection profile is the
  triple of endpoint, kubeconfig text and user agent, and a client is represented by the
  profile it was built from.
\<close>

definition ipv4_env ::
  "error + int \<Rightarrow> (Cluster \<Rightarrow> unit \<Rightarrow> error + string)
     \<Rightarrow> (int, int \<times> int, string, string \<times> string \<times> string,
          (string \<times> string \<times> string) Config, (string \<times> string \<times> string) Config) client_env" where
  "ipv4_env host getter =
     \<lparr>ChooseHostInterface = host,
      ParseCIDR = ParseCIDR_ipv4,
      Contains = Contains_ipv4,
      KubeconfigGetterVar = getter,
      ClientConfig = (\<lambda>masterUrl cfg. Inr \<lparr>QPS = 0, Burst = 0, profile = (masterUrl, cfg, [])\<rparr>),
      AddUserAgent = (\<lambda>config userAgent.
         config\<lparr>profile := (fst (profile config), fst (snd (profile config)), userAgent)\<rparr>),
      NewDiscoveryClientForConfigOrDie = (\<lambda>config. Returns (Some config)),
      NewForConfigOrDie = (\<lambda>config. Returns (Some config))\<rparr>"

text \<open>
  Two environments on the host 10.1.2.3: one whose getter is the default getter in a
  configured pod (namespace set, secret with a kubeconfig), one whose getter is the
  default getter in a pod without \<^verbatim>\<open>POD_NAMESPACE\<close>.
\<close>

definition configured_env ::
  "(int, int \<times> int, string, string \<times> string \<times> string,
    (string \<times> string \<times> string) Config, (string \<times> string \<times> string) Config) client_env" where
  "configured_env =
     ipv4_env (Inr (ipv4 10 1 2 3))
       (KubeconfigGetterForCluster
          (getter_env_of ''federation'' (Inr \<lparr>Data = [''kubeconfig'' \<mapsto> ''apiVersion: v1'']\<rparr>)))"

definition unconfigured_env ::
  "(int, int \<times> int, string, string \<times> string \<times> string,
    (string \<times> string \<times> string) Config, (string \<times> string \<times> string) Config) client_env" where
  "unconfigured_env =
     ipv4_env (Inr (ipv4 10 1 2 3))
       (KubeconfigGetterForCluster (getter_env_of [] (Inr \<lparr>Data = Map.empty\<rparr>)))"

section \<open>Properties\<close>

subsection \<open>Topology discovery: the loop in closed form\<close>

lemma getZone_has: "hasZone L n \<Longrightarrow> getZoneNameForNode L n = Inr (zoneOf L n)"
  by (auto simp: hasZone_def getZoneNameForNode_def zoneOf_def)

lemma getZone_hasnt: "\<not> hasZone L n \<Longrightarrow> getZoneNameForNode L n = Inl (zoneError L n)"
  by (auto simp: hasZone_def getZoneNameForNode_def zoneError_def)

lemma getRegion_has: "hasRegion L n \<Longrightarrow> getRegionNameForNode L n = Inr (regionOf L n)"
  by (auto simp: hasRegion_def getRegionNameForNode_def regionOf_def)

lemma getRegion_hasnt: "\<not> hasRegion L n \<Longrightarrow> getRegionNameForNode L n = Inl (regionError L n)"
  by (auto simp: hasRegion_def getRegionNameForNode_def regionError_def)

lemma zoneNamesLoop_later:
  "zoneNamesLoop L (Suc i) nodes Z r =
     (case find (\<lambda>n. \<not> hasZone L n) nodes of
        None \<Rightarrow> (Some (sets_List (Z \<union> zoneOf L ` set nodes)), r, None)
      | Some n \<Rightarrow> (None, [], Some (zoneError L n)))"
proof (induction nodes arbitrary: i Z r)
  case Nil
  show ?case by simp
next
  case (Cons a nodes)
  show ?case
  proof (cases "hasZone L a")
    case True
    then show ?thesis
      using Cons.IH [of "Suc i" "insert (zoneOf L a) Z" r]
      by (simp add: getZone_has split: option.splits)
  next
    case False
    then show ?thesis by (simp add: getZone_hasnt)
  qed
qed

lemma getZoneNames_Nil: "getZoneNames L (Inr []) = (Some [], [], None)"
  by (simp add: getZoneNames_def sets_List_def)

lemma getZoneNames_Cons:
  "getZoneNames L (Inr (n # rest)) =
     (if \<not> hasZone L n then (None, [], Some (zoneError L n))
      else if \<not> hasRegion L n then (None, [], Some (regionError L n))
      else (case find (\<lambda>m. \<not> hasZone L m) rest of
              None \<Rightarrow> (Some (sets_List (zoneOf L ` set (n # rest))), regionOf L n, None)
            | Some m \<Rightarrow> (None, [], Some (zoneError L m))))"
proof -
  have "{zoneOf L n} \<union> zoneOf L ` set rest = zoneOf L ` set (n # rest)"
    by simp
  then have "zoneNamesLoop L (Suc 0) rest {zoneOf L n} (regionOf L n) =
     (case find (\<lambda>m. \<not> hasZone L m) rest of
        None \<Rightarrow> (Some (sets_List (zoneOf L ` set (n # rest))), regionOf L n, None)
      | Some m \<Rightarrow> (None, [], Some (zoneError L m)))"
    using zoneNamesLoop_later [of L 0 rest "{zoneOf L n}" "regionOf L n"] by metis
  then show ?thesis
    by (simp add: getZoneNames_def getZone_has getZone_hasnt getRegion_has getRegion_hasnt)
qed

lemma sets_List_props:
  "finite S \<Longrightarrow> sorted (sets_List S) \<and> distinct (sets_List S) \<and> set (sets_List S) = S"
  by (simp add: sets_List_def)

lemma find_None_all: "find P xs = None \<longleftrightarrow> (\<forall>x\<in>set xs. \<not> P x)"
  by (induction xs) auto

lemmas concrete_defs = unversioned_keys_def fullNode_def zonedNode_def bareNode_def
  hasZone_def hasRegion_def zoneOf_def regionOf_def zoneError_def regionError_def

subsection \<open>Topology discovery on fully labelled node lists\<close>

text \<open>
  C4. When every listed node carries the zone label and the first node carries the
  region label, \<^verbatim>\<open>getZoneNames\<close> returns no error, the first node's region value
  (the empty string for the empty list), and the zone values of all nodes as a sorted
  sequence without duplicates.
\<close>

theorem getZoneNames_labelled:
  assumes "\<forall>n\<in>set nodes. hasZone L n"
    and "case nodes of [] \<Rightarrow> True | n # _ \<Rightarrow> hasRegion L n"
  shows "getZoneNames L (Inr nodes) =
           (Some (sets_List (zoneOf L ` set nodes)),
            (case nodes of [] \<Rightarrow> [] | n # _ \<Rightarrow> regionOf L n), None)
         \<and> sorted (sets_List (zoneOf L ` set nodes))
         \<and> distinct (sets_List (zoneOf L ` set nodes))
         \<and> set (sets_List (zoneOf L ` set nodes)) = zoneOf L ` set nodes"
proof -
  have run: "getZoneNames L (Inr nodes) =
           (Some (sets_List (zoneOf L ` set nodes)),
            (case nodes of [] \<Rightarrow> [] | n # _ \<Rightarrow> regionOf L n), None)"
  proof (cases nodes)
    case Nil
    then show ?thesis by (simp add: getZoneNames_Nil sets_List_def)
  next
    case (Cons n rest)
    with assms have "find (\<lambda>m. \<not> hasZone L m) rest = None"
      by (simp add: find_None_all)
    with Cons assms show ?thesis
      by (simp add: getZoneNames_Cons)
  qed
  have "finite (zoneOf L ` set nodes)" by simp
  from sets_List_props [OF this] run show ?thesis by simp
qed

text \<open>
  The theorem at the node list with zones us-east-1a, us-east-1b, us-east-1a and region
  us-east-1 on the first node, and at the empty list.
\<close>

theorem getZoneNames_labelled_witness:
  "getZoneNames unversioned_keys
     (Inr [fullNode ''n1'' ''us-east-1a'' ''us-east-1'', zonedNode ''n2'' ''us-east-1b'',
           zonedNode ''n3'' ''us-east-1a''])
     = (Some [''us-east-1a'', ''us-east-1b''], ''us-east-1'', None)
   \<and> getZoneNames unversioned_keys (Inr []) = (Some [], [], None)"
proof -
  let ?ns = "[fullNode ''n1'' ''us-east-1a'' ''us-east-1'', zonedNode ''n2'' ''us-east-1b'',
           zonedNode ''n3'' ''us-east-1a'']"
  have h1: "\<forall>n\<in>set ?ns. hasZone unversioned_keys n" by (simp add: concrete_defs)
  have h2: "case ?ns of [] \<Rightarrow> True | n # _ \<Rightarrow> hasRegion unversioned_keys n" by (simp add: concrete_defs)
  have z: "sets_List (zoneOf unversioned_keys ` set ?ns) = [''us-east-1a'', ''us-east-1b'']"
    by code_simp
  have r: "regionOf unversioned_keys (fullNode ''n1'' ''us-east-1a'' ''us-east-1'') = ''us-east-1''"
    by (simp add: concrete_defs)
  have e: "sets_List (zoneOf unversioned_keys ` set []) = []" by (simp add: sets_List_def)
  note a = getZoneNames_labelled [OF h1 h2, unfolded z r list.case]
  note b = getZoneNames_labelled [of "[]" unversioned_keys, unfolded e list.case]
  show ?thesis using a b by simp
qed

subsection \<open>Topology discovery on node lists with missing labels\<close>

text \<open>
  C5, as the code has it. A node list with a node that lacks the zone label makes
  \<^verbatim>\<open>getZoneNames\<close> return an error, the \<^verbatim>\<open>nil\<close> zone list and the empty region.
  The error names the first such node and the zone key when the first listed node
  either lacks the zone label itself or carries the region label; when the first
  listed node has the zone label and lacks the region label, the error names that
  first node and the region key, since its region is looked up before the next node
  is visited.
\<close>

theorem getZoneNames_missing_zone:
  assumes "find (\<lambda>m. \<not> hasZone L m) nodes = Some n"
  shows "(\<exists>e. getZoneNames L (Inr nodes) = (None, [], Some e))
       \<and> ((hasZone L (hd nodes) \<longrightarrow> hasRegion L (hd nodes)) \<longrightarrow>
            getZoneNames L (Inr nodes) = (None, [], Some (zoneError L n)))
       \<and> (hasZone L (hd nodes) \<and> \<not> hasRegion L (hd nodes) \<longrightarrow>
            getZoneNames L (Inr nodes) = (None, [], Some (regionError L (hd nodes))))"
proof (cases nodes)
  case Nil
  with assms show ?thesis by simp
next
  case (Cons a rest)
  show ?thesis
  proof (cases "hasZone L a")
    case False
    with assms Cons have "n = a" by simp
    with False Cons show ?thesis by (simp add: getZoneNames_Cons)
  next
    case True
    with assms Cons have "find (\<lambda>m. \<not> hasZone L m) rest = Some n" by simp
    with True Cons show ?thesis by (simp add: getZoneNames_Cons)
  qed
qed

text \<open>
  The theorem at a list whose second node has no label and whose first node has both,
  and at a list whose first node has the zone label only.
\<close>

theorem getZoneNames_missing_zone_witness:
  "getZoneNames unversioned_keys
     (Inr [fullNode ''n1'' ''us-east-1a'' ''us-east-1'', bareNode ''n2'',
           zonedNode ''n3'' ''us-east-1b''])
     = (None, [], Some (Error
         ''Zone name for node n2 not found. No label with key failure-domain.beta.kubernetes.io/zone''))
   \<and> getZoneNames unversioned_keys (Inr [zonedNode ''n1'' ''us-east-1a'', bareNode ''n2''])
     = (None, [], Some (Error
         ''Region name for node n1 not found. No label with key failure-domain.beta.kubernetes.io/region''))"
proof -
  let ?n1 = "fullNode ''n1'' ''us-east-1a'' ''us-east-1''"
  let ?z1 = "zonedNode ''n1'' ''us-east-1a''"
  let ?n2 = "bareNode ''n2''"
  let ?n3 = "zonedNode ''n3'' ''us-east-1b''"
  have f: "find (\<lambda>m. \<not> hasZone unversioned_keys m) [?n1, ?n2, ?n3] = Some ?n2"
    by (simp add: concrete_defs)
  have g: "find (\<lambda>m. \<not> hasZone unversioned_keys m) [?z1, ?n2] = Some ?n2"
    by (simp add: concrete_defs)
  have h: "hasZone unversioned_keys ?n1" "hasRegion unversioned_keys ?n1"
    "hasZone unversioned_keys ?z1" "\<not> hasRegion unversioned_keys ?z1"
    by (simp_all add: concrete_defs)
  have e: "zoneError unversioned_keys ?n2 = Error
         ''Zone name for node n2 not found. No label with key failure-domain.beta.kubernetes.io/zone''"
    "regionError unversioned_keys ?z1 = Error
         ''Region name for node n1 not found. No label with key failure-domain.beta.kubernetes.io/region''"
    by (simp_all add: concrete_defs)
  show ?thesis
    using getZoneNames_missing_zone [OF f] getZoneNames_missing_zone [OF g] h e by simp
qed

text \<open>
  C5 as stated fails: the second node is the first one without the zone label, and
  the error names the first node and the region key.
\<close>

theorem getZoneNames_missing_zone_counterexample:
  "hasZone unversioned_keys (zonedNode ''n1'' ''us-east-1a'')
   \<and> \<not> hasZone unversioned_keys (bareNode ''n2'')
   \<and> getZoneNames unversioned_keys (Inr [zonedNode ''n1'' ''us-east-1a'', bareNode ''n2''])
     = (None, [], Some (Error
         ''Region name for node n1 not found. No label with key failure-domain.beta.kubernetes.io/region''))
   \<and> getZoneNames unversioned_keys (Inr [zonedNode ''n1'' ''us-east-1a'', bareNode ''n2''])
     \<noteq> (None, [], Some (zoneError unversioned_keys (bareNode ''n2'')))"
  by (simp add: concrete_defs getZoneNames_def getZoneNameForNode_def getRegionNameForNode_def)

text \<open>
  C6, as the code has it. When the first listed node lacks the region label,
  \<^verbatim>\<open>getZoneNames\<close> returns an error, the \<^verbatim>\<open>nil\<close> zone list and the empty region;
  the error is the region error of that node, or its zone error when it lacks the zone
  label too. The region label is looked up on the first node only: when the first
  node carries it and every node carries the zone label, discovery succeeds whatever
  region labels the later nodes have. Every listed node is checked for the zone label:
  a node without it makes discovery fail with no partial result.
\<close>

theorem getZoneNames_missing_region:
  "(\<not> hasRegion L n \<longrightarrow>
      getZoneNames L (Inr (n # rest)) =
        (None, [], Some (if hasZone L n then regionError L n else zoneError L n)))
   \<and> (hasRegion L n \<and> (\<forall>m\<in>set (n # rest). hasZone L m) \<longrightarrow>
      getZoneNames L (Inr (n # rest)) =
        (Some (sets_List (zoneOf L ` set (n # rest))), regionOf L n, None))
   \<and> ((\<exists>m\<in>set (n # rest). \<not> hasZone L m) \<longrightarrow>
      (\<exists>e. getZoneNames L (Inr (n # rest)) = (None, [], Some e)))"
proof (intro conjI impI)
  assume "\<not> hasRegion L n"
  then show "getZoneNames L (Inr (n # rest)) =
        (None, [], Some (if hasZone L n then regionError L n else zoneError L n))"
    by (simp add: getZoneNames_Cons)
next
  assume h: "hasRegion L n \<and> (\<forall>m\<in>set (n # rest). hasZone L m)"
  then have "find (\<lambda>m. \<not> hasZone L m) rest = None"
    by (simp add: find_None_all)
  with h show "getZoneNames L (Inr (n # rest)) =
        (Some (sets_List (zoneOf L ` set (n # rest))), regionOf L n, None)"
    by (simp add: getZoneNames_Cons)
next
  assume h: "\<exists>m\<in>set (n # rest). \<not> hasZone L m"
  show "\<exists>e. getZoneNames L (Inr (n # rest)) = (None, [], Some e)"
  proof (cases "find (\<lambda>m. \<not> hasZone L m) rest")
    case None
    with h have "\<not> hasZone L n" by (auto simp add: find_None_all)
    then show ?thesis by (simp add: getZoneNames_Cons)
  next
    case (Some m)
    then show ?thesis by (simp add: getZoneNames_Cons)
  qed
qed

text \<open>
  The theorem at a list whose first node has the zone label only, at a list whose
  second node has the zone label only, and at a list whose second node has no label.
\<close>

theorem getZoneNames_missing_region_witness:
  "getZoneNames unversioned_keys
     (Inr [zonedNode ''n1'' ''us-east-1a'', fullNode ''n2'' ''us-east-1b'' ''us-east-1''])
     = (None, [], Some (Error
         ''Region name for node n1 not found. No label with key failure-domain.beta.kubernetes.io/region''))
   \<and> getZoneNames unversioned_keys
     (Inr [fullNode ''n1'' ''us-east-1a'' ''us-east-1'', zonedNode ''n2'' ''us-east-1b''])
     = (Some [''us-east-1a'', ''us-east-1b''], ''us-east-1'', None)
   \<and> (\<exists>e. getZoneNames unversioned_keys
     (Inr [fullNode ''n1'' ''us-east-1a'' ''us-east-1'', bareNode ''n2'']) = (None, [], Some e))"
proof -
  let ?z1 = "zonedNode ''n1'' ''us-east-1a''"
  let ?f2 = "fullNode ''n2'' ''us-east-1b'' ''us-east-1''"
  let ?f1 = "fullNode ''n1'' ''us-east-1a'' ''us-east-1''"
  let ?z2 = "zonedNode ''n2'' ''us-east-1b''"
  let ?b2 = "bareNode ''n2''"
  have h1: "\<not> hasRegion unversioned_keys ?z1" "hasZone unversioned_keys ?z1"
    by (simp_all add: concrete_defs)
  have e1: "regionError unversioned_keys ?z1 = Error
         ''Region name for node n1 not found. No label with key failure-domain.beta.kubernetes.io/region''"
    by (simp add: concrete_defs)
  have h2: "hasRegion unversioned_keys ?f1 \<and> (\<forall>m\<in>set (?f1 # [?z2]). hasZone unversioned_keys m)"
    by (simp add: concrete_defs)
  have z2: "sets_List (zoneOf unversioned_keys ` set (?f1 # [?z2])) = [''us-east-1a'', ''us-east-1b'']"
    by code_simp
  have r2: "regionOf unversioned_keys ?f1 = ''us-east-1''"
    by (simp add: concrete_defs)
  have h3: "\<exists>m\<in>set (?f1 # [?b2]). \<not> hasZone unversioned_keys m"
    by (simp add: concrete_defs)
  from getZoneNames_missing_region [of unversioned_keys ?z1 "[?f2]"] h1 e1
  have a: "getZoneNames unversioned_keys (Inr [?z1, ?f2]) = (None, [], Some (Error
         ''Region name for node n1 not found. No label with key failure-domain.beta.kubernetes.io/region''))"
    by simp
  from getZoneNames_missing_region [of unversioned_keys ?f1 "[?z2]", unfolded z2 r2] h2
  have b: "getZoneNames unversioned_keys (Inr [?f1, ?z2])
     = (Some [''us-east-1a'', ''us-east-1b''], ''us-east-1'', None)"
    by blast
  from getZoneNames_missing_region [of unversioned_keys ?f1 "[?b2]"] h3
  have c: "\<exists>e. getZoneNames unversioned_keys (Inr [?f1, ?b2]) = (None, [], Some e)"
    by blast
  from a b c show ?thesis by blast
qed

text \<open>
  C6 as stated fails: the second node lacks the region label and discovery
  succeeds.
\<close>

theorem getZoneNames_missing_region_counterexample:
  "\<not> hasRegion unversioned_keys (zonedNode ''n2'' ''us-east-1b'')
   \<and> getZoneNames unversioned_keys
       (Inr [fullNode ''n1'' ''us-east-1a'' ''us-east-1'', zonedNode ''n2'' ''us-east-1b''])
     = (Some [''us-east-1a'', ''us-east-1b''], ''us-east-1'', None)"
  by code_simp

subsection \<open>Topology discovery and the listing order\<close>

lemma getZoneNames_success:
  assumes "snd (snd (getZoneNames L (Inr nodes))) = None"
  shows "fst (getZoneNames L (Inr nodes)) = Some (sets_List (zoneOf L ` set nodes))"
proof (cases nodes)
  case Nil
  then show ?thesis by (simp add: getZoneNames_Nil sets_List_def)
next
  case (Cons a rest)
  with assms show ?thesis
    by (simp add: getZoneNames_Cons split: if_splits option.splits)
qed

lemma getZoneNames_failure:
  assumes "snd (snd (getZoneNames L (Inr nodes))) \<noteq> None"
  shows "fst (getZoneNames L (Inr nodes)) = None"
proof (cases nodes)
  case Nil
  with assms show ?thesis by (simp add: getZoneNames_Nil)
next
  case (Cons a rest)
  with assms show ?thesis
    by (simp add: getZoneNames_Cons split: if_splits option.splits)
qed

text \<open>
  C9, as the code has it. Two listings of the same set of nodes give the same zone
  result whenever both runs succeed or both fail; a successful run returns the sorted
  list, without duplicates, of the zone values of the set. One listing can fail where the other succeeds,
  since only the first listed node is asked for its region.
\<close>

theorem getZoneNames_listing_order:
  assumes "set nodes1 = set nodes2"
    and "(snd (snd (getZoneNames L (Inr nodes1))) = None) =
         (snd (snd (getZoneNames L (Inr nodes2))) = None)"
  shows "fst (getZoneNames L (Inr nodes1)) = fst (getZoneNames L (Inr nodes2))
         \<and> (snd (snd (getZoneNames L (Inr nodes1))) = None \<longrightarrow>
              fst (getZoneNames L (Inr nodes1)) = Some (sets_List (zoneOf L ` set nodes1))
              \<and> sorted (sets_List (zoneOf L ` set nodes1))
              \<and> distinct (sets_List (zoneOf L ` set nodes1))
              \<and> set (sets_List (zoneOf L ` set nodes1)) = zoneOf L ` set nodes1)"
proof -
  have same: "fst (getZoneNames L (Inr nodes1)) = fst (getZoneNames L (Inr nodes2))"
  proof (cases "snd (snd (getZoneNames L (Inr nodes1))) = None")
    case True
    with assms(2) have "snd (snd (getZoneNames L (Inr nodes2))) = None" by simp
    with True assms(1) show ?thesis by (simp add: getZoneNames_success)
  next
    case False
    with assms(2) have "snd (snd (getZoneNames L (Inr nodes2))) \<noteq> None" by simp
    with False show ?thesis by (simp add: getZoneNames_failure)
  qed
  have "finite (zoneOf L ` set nodes1)" by simp
  from sets_List_props [OF this] same getZoneNames_success [of L nodes1] show ?thesis
    by blast
qed

text \<open>
  The theorem at two listings of the same two fully labelled nodes: both runs succeed
  and return the sorted zone list.
\<close>

theorem getZoneNames_listing_order_witness:
  "set [fullNode ''n1'' ''us-east-1a'' ''us-east-1'', fullNode ''n2'' ''us-east-1b'' ''us-east-1'']
     = set [fullNode ''n2'' ''us-east-1b'' ''us-east-1'', fullNode ''n1'' ''us-east-1a'' ''us-east-1'']
   \<and> snd (snd (getZoneNames unversioned_keys
       (Inr [fullNode ''n1'' ''us-east-1a'' ''us-east-1'', fullNode ''n2'' ''us-east-1b'' ''us-east-1'']))) = None
   \<and> snd (snd (getZoneNames unversioned_keys
       (Inr [fullNode ''n2'' ''us-east-1b'' ''us-east-1'', fullNode ''n1'' ''us-east-1a'' ''us-east-1'']))) = None
   \<and> fst (getZoneNames unversioned_keys
       (Inr [fullNode ''n1'' ''us-east-1a'' ''us-east-1'', fullNode ''n2'' ''us-east-1b'' ''us-east-1'']))
     = fst (getZoneNames unversioned_keys
       (Inr [fullNode ''n2'' ''us-east-1b'' ''us-east-1'', fullNode ''n1'' ''us-east-1a'' ''us-east-1'']))
   \<and> fst (getZoneNames unversioned_keys
       (Inr [fullNode ''n1'' ''us-east-1a'' ''us-east-1'', fullNode ''n2'' ''us-east-1b'' ''us-east-1'']))
     = Some [''us-east-1a'', ''us-east-1b'']"
proof -
  let ?a = "[fullNode ''n1'' ''us-east-1a'' ''us-east-1'', fullNode ''n2'' ''us-east-1b'' ''us-east-1'']"
  let ?b = "[fullNode ''n2'' ''us-east-1b'' ''us-east-1'', fullNode ''n1'' ''us-east-1a'' ''us-east-1'']"
  have s: "set ?a = set ?b" by auto
  have a: "snd (snd (getZoneNames unversioned_keys (Inr ?a))) = None" by code_simp
  have b: "snd (snd (getZoneNames unversioned_keys (Inr ?b))) = None" by code_simp
  have ab: "(snd (snd (getZoneNames unversioned_keys (Inr ?a))) = None) =
            (snd (snd (getZoneNames unversioned_keys (Inr ?b))) = None)"
    using a b by simp
  have z: "sets_List (zoneOf unversioned_keys ` set ?a) = [''us-east-1a'', ''us-east-1b'']"
    by code_simp
  note r = getZoneNames_listing_order [OF s ab, unfolded z]
  from r s a b show ?thesis by blast
qed

text \<open>
  C9 as stated fails: the same two nodes, listed in the two orders, give the zone
  list in one run and an error with the \<^verbatim>\<open>nil\<close> list in the other.
\<close>

theorem getZoneNames_listing_order_counterexample:
  "set [fullNode ''n1'' ''us-east-1a'' ''us-east-1'', zonedNode ''n2'' ''us-east-1b'']
     = set [zonedNode ''n2'' ''us-east-1b'', fullNode ''n1'' ''us-east-1a'' ''us-east-1'']
   \<and> fst (getZoneNames unversioned_keys
       (Inr [fullNode ''n1'' ''us-east-1a'' ''us-east-1'', zonedNode ''n2'' ''us-east-1b'']))
     = Some [''us-east-1a'', ''us-east-1b'']
   \<and> fst (getZoneNames unversioned_keys
       (Inr [zonedNode ''n2'' ''us-east-1b'', fullNode ''n1'' ''us-east-1a'' ''us-east-1'']))
     = None"
proof -
  have "set [fullNode ''n1'' ''us-east-1a'' ''us-east-1'', zonedNode ''n2'' ''us-east-1b'']
     = set [zonedNode ''n2'' ''us-east-1b'', fullNode ''n1'' ''us-east-1a'' ''us-east-1'']"
    by auto
  moreover have "fst (getZoneNames unversioned_keys
       (Inr [fullNode ''n1'' ''us-east-1a'' ''us-east-1'', zonedNode ''n2'' ''us-east-1b'']))
     = Some [''us-east-1a'', ''us-east-1b'']"
    by code_simp
  moreover have "fst (getZoneNames unversioned_keys
       (Inr [zonedNode ''n2'' ''us-east-1b'', fullNode ''n1'' ''us-east-1a'' ''us-east-1'']))
     = None"
    by code_simp
  ultimately show ?thesis by blast
qed

subsection \<open>Health probe\<close>

text \<open>
  C2. \<^verbatim>\<open>GetClusterHealthStatus\<close> returns a status and no error value (it is a total
  function into statuses). The types and statuses of its conditions depend only on
  whether the request returned an error and on whether the body equals \<open>ok\<close> under
  case folding, not on the time or on the error itself: an error gives exactly
  Offline=true; a body that folds to \<open>ok\<close> gives exactly Ready=true; any other body
  gives exactly Ready=false, Offline=false. The condition sequence is never empty.
\<close>

theorem GetClusterHealthStatus_conditions:
  "conditionSet (GetClusterHealthStatus EqualFold currentTime (body, err)) =
     (if err \<noteq> None then [(ClusterOffline, ConditionTrue)]
      else if EqualFold body ''ok'' then [(ClusterReady, ConditionTrue)]
      else [(ClusterReady, ConditionFalse), (ClusterOffline, ConditionFalse)])
   \<and> Conditions (GetClusterHealthStatus EqualFold currentTime (body, err)) \<noteq> []"
  by (simp add: GetClusterHealthStatus_def conditionSet_def newClusterReadyCondition_def
      newClusterNotReadyCondition_def newNodeOfflineCondition_def newNodeNotOfflineCondition_def)

lemma EqualFold_ascii_examples:
  "EqualFold_ascii ''OK'' ''ok''" "EqualFold_ascii ''ok'' ''ok''" "EqualFold_ascii ''Ok'' ''ok''"
  "\<not> EqualFold_ascii ''fail'' ''ok''" "\<not> EqualFold_ascii ''okay'' ''ok''" "\<not> EqualFold_ascii '''' ''ok''"
  by code_simp+

text \<open>
  The theorem at the bodies \<open>OK\<close> and \<open>fail\<close> and at a transport timeout.
\<close>

theorem GetClusterHealthStatus_conditions_witness:
  "conditionSet (GetClusterHealthStatus EqualFold_ascii (0::nat) (''OK'', None))
     = [(ClusterReady, ConditionTrue)]
   \<and> conditionSet (GetClusterHealthStatus EqualFold_ascii (0::nat) (''fail'', None))
     = [(ClusterReady, ConditionFalse), (ClusterOffline, ConditionFalse)]
   \<and> conditionSet (GetClusterHealthStatus EqualFold_ascii (0::nat)
        ([], Some (Error ''net/http: request canceled (Client.Timeout exceeded)'')))
     = [(ClusterOffline, ConditionTrue)]"
  using GetClusterHealthStatus_conditions [of EqualFold_ascii "0::nat" "''OK''" None]
    GetClusterHealthStatus_conditions [of EqualFold_ascii "0::nat" "''fail''" None]
    GetClusterHealthStatus_conditions [of EqualFold_ascii "0::nat" "[]"
      "Some (Error ''net/http: request canceled (Client.Timeout exceeded)'')"]
    EqualFold_ascii_examples
  by simp

text \<open>
  C10. When the request succeeds and the body does not fold to \<open>ok\<close>, the status
  holds exactly two conditions in this order: Ready=false with reason ClusterNotReady,
  then Offline=false with reason ClusterReachable; both carry the probe time twice.
\<close>

theorem GetClusterHealthStatus_not_ok:
  assumes "\<not> EqualFold body ''ok''"
  shows "Conditions (GetClusterHealthStatus EqualFold currentTime (body, None)) =
           [\<lparr>Type = ClusterReady, Status = ConditionFalse, Reason = ''ClusterNotReady'',
             Message = ''/healthz responded without ok'',
             LastProbeTime = currentTime, LastTransitionTime = currentTime\<rparr>,
            \<lparr>Type = ClusterOffline, Status = ConditionFalse, Reason = ''ClusterReachable'',
             Message = ''cluster is reachable'',
             LastProbeTime = currentTime, LastTransitionTime = currentTime\<rparr>]"
  using assms
  by (simp add: GetClusterHealthStatus_def newClusterNotReadyCondition_def
      newNodeNotOfflineCondition_def)

text \<open>
  The theorem at the body \<open>fail\<close>.
\<close>

theorem GetClusterHealthStatus_not_ok_witness:
  "\<not> EqualFold_ascii ''fail'' ''ok''
   \<and> Conditions (GetClusterHealthStatus EqualFold_ascii (7::nat) (''fail'', None)) =
           [\<lparr>Type = ClusterReady, Status = ConditionFalse, Reason = ''ClusterNotReady'',
             Message = ''/healthz responded without ok'',
             LastProbeTime = 7, LastTransitionTime = 7\<rparr>,
            \<lparr>Type = ClusterOffline, Status = ConditionFalse, Reason = ''ClusterReachable'',
             Message = ''cluster is reachable'',
             LastProbeTime = 7, LastTransitionTime = 7\<rparr>]"
proof -
  have h: "\<not> EqualFold_ascii ''fail'' ''ok''" by code_simp
  from GetClusterHealthStatus_not_ok [of EqualFold_ascii "''fail''" "7::nat"] h show ?thesis by simp
qed

subsection \<open>Credential resolver\<close>

text \<open>
  C8. The default getter fails with its own error in each of three cases: the value
  of \<^verbatim>\<open>POD_NAMESPACE\<close> is empty (which is also what an unset variable reads as); the
  namespace is set, the in-cluster client is built and the secret lookup fails; the
  secret is fetched and has no data under the key \<open>kubeconfig\<close>. The third error
  names the key, and the three errors are pairwise different whatever the lookup
  error says.
\<close>

theorem KubeconfigGetterForCluster_failures:
  "(Getenv env ''POD_NAMESPACE'' = [] \<longrightarrow>
      KubeconfigGetterForCluster env c () =
        Inl (Error ''unexpected: POD_NAMESPACE env var returned empty string''))
   \<and> (Getenv env ''POD_NAMESPACE'' \<noteq> [] \<and> NewInCluster env = Inr cl
        \<and> SecretsGet env cl (Getenv env ''POD_NAMESPACE'') (RefName (SecretRef (Spec c))) = Inl e \<longrightarrow>
      KubeconfigGetterForCluster env c () =
        Inl (Error (''error in fetching secret: '' @ message e)))
   \<and> (Getenv env ''POD_NAMESPACE'' \<noteq> [] \<and> NewInCluster env = Inr cl
        \<and> SecretsGet env cl (Getenv env ''POD_NAMESPACE'') (RefName (SecretRef (Spec c))) = Inr secret
        \<and> Data secret ''kubeconfig'' = None \<longrightarrow>
      KubeconfigGetterForCluster env c () =
        Inl (Error ''secret does not have data with key: kubeconfig''))
   \<and> distinct [Error ''unexpected: POD_NAMESPACE env var returned empty string'',
                Error (''error in fetching secret: '' @ message e),
                Error ''secret does not have data with key: kubeconfig'']"
  by (simp add: KubeconfigGetterForCluster_def KubeconfigSecretDataKey_def)

text \<open>
  The theorem at an empty namespace, at a failing secret lookup, and at a secret
  that holds another key only.
\<close>

theorem KubeconfigGetterForCluster_failures_witness:
  "KubeconfigGetterForCluster (getter_env_of [] (Inr \<lparr>Data = Map.empty\<rparr>)) (cluster_of []) ()
     = Inl (Error ''unexpected: POD_NAMESPACE env var returned empty string'')
   \<and> KubeconfigGetterForCluster
       (getter_env_of ''federation'' (Inl (Error ''secret member-secret not found''))) (cluster_of []) ()
     = Inl (Error ''error in fetching secret: secret member-secret not found'')
   \<and> KubeconfigGetterForCluster
       (getter_env_of ''federation'' (Inr \<lparr>Data = [''token'' \<mapsto> ''abc'']\<rparr>)) (cluster_of []) ()
     = Inl (Error ''secret does not have data with key: kubeconfig'')"
  using
    KubeconfigGetterForCluster_failures
      [of "getter_env_of [] (Inr \<lparr>Data = Map.empty\<rparr>)" "cluster_of []"]
    KubeconfigGetterForCluster_failures
      [of "getter_env_of ''federation'' (Inl (Error ''secret member-secret not found''))"
          "cluster_of []" "()" "Error ''secret member-secret not found''"]
    KubeconfigGetterForCluster_failures
      [of "getter_env_of ''federation'' (Inr \<lparr>Data = [''token'' \<mapsto> ''abc'']\<rparr>)"
          "cluster_of []" "()" _ "\<lparr>Data = [''token'' \<mapsto> ''abc'']\<rparr>"]
  by (simp add: getter_env_of_def)

subsection \<open>Endpoint selection\<close>

lemma serverAddressLoop_item:
  "serverAddressLoop env ip (item # items) =
     (if \<not> cidrParses env (ClientCIDR item) then
        (case ParseCIDR env (ClientCIDR item) of Inl e \<Rightarrow> Inl e | Inr _ \<Rightarrow> Inr [])
      else if cidrContains env ip (ClientCIDR item) then Inr (ServerAddress item)
      else serverAddressLoop env ip items)"
  by (simp add: cidrParses_def cidrContains_def split: sum.splits)

lemma serverAddressLoop_skip:
  assumes "\<forall>p\<in>set pre. cidrParses env (ClientCIDR p) \<and> \<not> cidrContains env ip (ClientCIDR p)"
  shows "serverAddressLoop env ip (pre @ rest) = serverAddressLoop env ip rest"
  using assms
proof (induction pre)
  case Nil
  show ?case by simp
next
  case (Cons a pre)
  then show ?case by (simp add: serverAddressLoop_item del: serverAddressLoop.simps)
qed

lemma cidrContains_parses: "cidrContains env ip s \<Longrightarrow> cidrParses env s"
  by (simp add: cidrContains_def cidrParses_def split: sum.splits)

lemma parse_examples:
  "ParseCIDR_ipv4 ''10.0.0.0/8'' = Inr (ipv4 10 0 0 0, 8)"
  "ParseCIDR_ipv4 ''10.1.0.0/16'' = Inr (ipv4 10 1 0 0, 16)"
  "ParseCIDR_ipv4 ''192.168.0.0/16'' = Inr (ipv4 192 168 0 0, 16)"
  "ParseCIDR_ipv4 ''bad'' = Inl (Error ''invalid CIDR address: bad'')"
  by code_simp+

lemma contains_examples:
  "Contains_ipv4 (ipv4 10 0 0 0, 8) (ipv4 10 1 2 3)"
  "Contains_ipv4 (ipv4 10 1 0 0, 16) (ipv4 10 1 2 3)"
  "\<not> Contains_ipv4 (ipv4 192 168 0 0, 16) (ipv4 10 1 2 3)"
  by (simp_all add: Contains_ipv4_def ipv4_def)

lemma cidr_examples:
  "cidrParses (ipv4_env h g) ''10.0.0.0/8''"
  "cidrParses (ipv4_env h g) ''10.1.0.0/16''"
  "cidrParses (ipv4_env h g) ''192.168.0.0/16''"
  "\<not> cidrParses (ipv4_env h g) ''bad''"
  "cidrContains (ipv4_env h g) (ipv4 10 1 2 3) ''10.0.0.0/8''"
  "cidrContains (ipv4_env h g) (ipv4 10 1 2 3) ''10.1.0.0/16''"
  "\<not> cidrContains (ipv4_env h g) (ipv4 10 1 2 3) ''192.168.0.0/16''"
  "\<not> cidrContains (ipv4_env h g) (ipv4 10 1 2 3) ''bad''"
  by (simp_all add: cidrParses_def cidrContains_def ipv4_env_def parse_examples contains_examples)

lemma env_fields:
  "ChooseHostInterface configured_env = Inr (ipv4 10 1 2 3)"
  "ChooseHostInterface unconfigured_env = Inr (ipv4 10 1 2 3)"
  "ParseCIDR configured_env = ParseCIDR_ipv4"
  "ParseCIDR unconfigured_env = ParseCIDR_ipv4"
  "KubeconfigGetterVar configured_env c () = Inr ''apiVersion: v1''"
  "KubeconfigGetterVar unconfigured_env c () =
     Inl (Error ''unexpected: POD_NAMESPACE env var returned empty string'')"
  by (simp_all add: configured_env_def unconfigured_env_def ipv4_env_def
      KubeconfigGetterForCluster_def getter_env_of_def KubeconfigSecretDataKey_def)

text \<open>
  C3, as the code has it. The loop visits the pairs in their order. When every CIDR
  string it examines before the first pair whose network contains the host address
  parses (every CIDR string of the list, when no network contains the address), it
  yields the server address of that first pair, whichever later networks contain the
  address too, and the empty address when there is none. The empty list always
  yields the empty address. A CIDR string that does not parse and comes before the
  first match ends the function with the parse error instead.
\<close>

theorem serverAddressLoop_first_match:
  "((\<forall>p\<in>set (takeWhile (\<lambda>p. \<not> cidrContains env ip (ClientCIDR p)) pairs).
        cidrParses env (ClientCIDR p)) \<longrightarrow>
      serverAddressLoop env ip pairs =
        Inr (case find (\<lambda>p. cidrContains env ip (ClientCIDR p)) pairs of
               None \<Rightarrow> [] | Some p \<Rightarrow> ServerAddress p))
   \<and> serverAddressLoop env ip [] = Inr []
   \<and> ((\<forall>p\<in>set pre. cidrParses env (ClientCIDR p) \<and> \<not> cidrContains env ip (ClientCIDR p))
        \<and> ParseCIDR env (ClientCIDR item) = Inl e \<longrightarrow>
      serverAddressLoop env ip (pre @ item # post) = Inl e)"
proof (intro conjI impI)
  assume "\<forall>p\<in>set (takeWhile (\<lambda>p. \<not> cidrContains env ip (ClientCIDR p)) pairs).
             cidrParses env (ClientCIDR p)"
  then show "serverAddressLoop env ip pairs =
           Inr (case find (\<lambda>p. cidrContains env ip (ClientCIDR p)) pairs of
                  None \<Rightarrow> [] | Some p \<Rightarrow> ServerAddress p)"
  proof (induction pairs)
    case Nil
    show ?case by simp
  next
    case (Cons a pairs)
    show ?case
    proof (cases "cidrContains env ip (ClientCIDR a)")
      case True
      with cidrContains_parses [OF True] show ?thesis
        by (simp add: serverAddressLoop_item del: serverAddressLoop.simps)
    next
      case False
      with Cons.prems have "cidrParses env (ClientCIDR a)" by simp
      moreover from False Cons.prems
      have "\<forall>p\<in>set (takeWhile (\<lambda>p. \<not> cidrContains env ip (ClientCIDR p)) pairs).
             cidrParses env (ClientCIDR p)" by simp
      ultimately show ?thesis
        using False Cons.IH by (simp add: serverAddressLoop_item del: serverAddressLoop.simps)
    qed
  qed
next
  show "serverAddressLoop env ip [] = Inr []" by simp
next
  assume h: "(\<forall>p\<in>set pre. cidrParses env (ClientCIDR p) \<and> \<not> cidrContains env ip (ClientCIDR p))
        \<and> ParseCIDR env (ClientCIDR item) = Inl e"
  then show "serverAddressLoop env ip (pre @ item # post) = Inl e"
    by (simp add: serverAddressLoop_skip)
qed

text \<open>
  The theorem on the host 10.1.2.3: of three pairs the second and the third contain
  the address and the second one's address is selected; a list whose only network
  does not contain the address gives the empty address; a list whose second CIDR
  string is malformed, before the matching third pair, gives the parse error.
\<close>

theorem serverAddressLoop_first_match_witness:
  "serverAddressLoop configured_env (ipv4 10 1 2 3)
     [\<lparr>ClientCIDR = ''192.168.0.0/16'', ServerAddress = ''https://192.168.0.1''\<rparr>,
      \<lparr>ClientCIDR = ''10.0.0.0/8'', ServerAddress = ''https://10.0.0.1''\<rparr>,
      \<lparr>ClientCIDR = ''10.1.0.0/16'', ServerAddress = ''https://10.1.0.1''\<rparr>]
     = Inr ''https://10.0.0.1''
   \<and> serverAddressLoop configured_env (ipv4 10 1 2 3)
     [\<lparr>ClientCIDR = ''192.168.0.0/16'', ServerAddress = ''https://192.168.0.1''\<rparr>]
     = Inr []
   \<and> serverAddressLoop configured_env (ipv4 10 1 2 3)
     [\<lparr>ClientCIDR = ''192.168.0.0/16'', ServerAddress = ''https://192.168.0.1''\<rparr>,
      \<lparr>ClientCIDR = ''bad'', ServerAddress = ''https://10.1.0.1''\<rparr>,
      \<lparr>ClientCIDR = ''10.0.0.0/8'', ServerAddress = ''https://10.0.0.1''\<rparr>]
     = Inl (Error ''invalid CIDR address: bad'')"
proof -
  let ?a = "\<lparr>ClientCIDR = ''192.168.0.0/16'', ServerAddress = ''https://192.168.0.1''\<rparr>"
  let ?b = "\<lparr>ClientCIDR = ''10.0.0.0/8'', ServerAddress = ''https://10.0.0.1''\<rparr>"
  let ?c = "\<lparr>ClientCIDR = ''10.1.0.0/16'', ServerAddress = ''https://10.1.0.1''\<rparr>"
  let ?m = "\<lparr>ClientCIDR = ''bad'', ServerAddress = ''https://10.1.0.1''\<rparr>"
  have 1: "serverAddressLoop configured_env (ipv4 10 1 2 3) [?a, ?b, ?c] = Inr ''https://10.0.0.1''"
    using serverAddressLoop_first_match [of configured_env "ipv4 10 1 2 3" "[?a, ?b, ?c]"]
    by (simp add: cidr_examples configured_env_def)
  have 2: "serverAddressLoop configured_env (ipv4 10 1 2 3) [?a] = Inr []"
    using serverAddressLoop_first_match [of configured_env "ipv4 10 1 2 3" "[?a]"]
    by (simp add: cidr_examples configured_env_def)
  have p: "\<forall>p\<in>set [?a]. cidrParses configured_env (ClientCIDR p)
             \<and> \<not> cidrContains configured_env (ipv4 10 1 2 3) (ClientCIDR p)"
    by (simp add: cidr_examples configured_env_def)
  have q: "ParseCIDR configured_env (ClientCIDR ?m) = Inl (Error ''invalid CIDR address: bad'')"
    by (simp add: env_fields parse_examples)
  have 3: "serverAddressLoop configured_env (ipv4 10 1 2 3) ([?a] @ ?m # [?b])
             = Inl (Error ''invalid CIDR address: bad'')"
    using serverAddressLoop_first_match
      [of configured_env "ipv4 10 1 2 3" "[]" "[?a]" ?m "Error ''invalid CIDR address: bad''" "[?b]"]
      p q
    by blast
  from 1 2 3 show ?thesis by simp
qed

text \<open>
  C3 as stated fails: the second pair is the first whose network contains the host
  address, and the malformed first pair makes the loop end with a parse error.
\<close>

theorem serverAddressLoop_first_match_counterexample:
  "cidrContains configured_env (ipv4 10 1 2 3) ''10.0.0.0/8''
   \<and> \<not> cidrContains configured_env (ipv4 10 1 2 3) ''bad''
   \<and> serverAddressLoop configured_env (ipv4 10 1 2 3)
     [\<lparr>ClientCIDR = ''bad'', ServerAddress = ''https://192.168.0.1''\<rparr>,
      \<lparr>ClientCIDR = ''10.0.0.0/8'', ServerAddress = ''https://10.0.0.1''\<rparr>]
     = Inl (Error ''invalid CIDR address: bad'')"
  by (simp add: cidr_examples configured_env_def) (simp add: ipv4_env_def parse_examples)

subsection \<open>Cluster client factory\<close>

text \<open>
  C7, as the code has it. When the host address is found and a CIDR string that does
  not parse comes before every pair whose network contains the host address (the
  pairs before it parse and do not contain it), \<^verbatim>\<open>NewClusterClientSet\<close> returns the
  \<^verbatim>\<open>nil\<close> client and the parse error of that string. The loop stops at the first
  match, so a malformed string after it is never parsed: when the pair after that
  prefix contains the host address, the loop yields its server address whatever
  follows it in the list.
\<close>

theorem NewClusterClientSet_malformed:
  assumes "ChooseHostInterface env = Inr ip"
    and "ServerAddressByClientCIDRs (Spec c) = pre @ item # post"
    and "\<forall>p\<in>set pre. cidrParses env (ClientCIDR p) \<and> \<not> cidrContains env ip (ClientCIDR p)"
  shows "(ParseCIDR env (ClientCIDR item) = Inl e \<longrightarrow>
            NewClusterClientSet env c = Returns (None, Some e))
         \<and> (cidrContains env ip (ClientCIDR item) \<longrightarrow>
            serverAddressLoop env ip (ServerAddressByClientCIDRs (Spec c)) =
              Inr (ServerAddress item))"
proof (intro conjI impI)
  assume "ParseCIDR env (ClientCIDR item) = Inl e"
  then have "serverAddressLoop env ip (pre @ item # post) = Inl e"
    by (simp add: serverAddressLoop_skip [OF assms(3)])
  with assms(1,2) show "NewClusterClientSet env c = Returns (None, Some e)"
    by (simp add: NewClusterClientSet_def)
next
  assume m: "cidrContains env ip (ClientCIDR item)"
  have "serverAddressLoop env ip (pre @ item # post) = serverAddressLoop env ip (item # post)"
    by (rule serverAddressLoop_skip [OF assms(3)])
  also have "\<dots> = Inr (ServerAddress item)"
    using m cidrContains_parses [OF m]
    by (simp add: serverAddressLoop_item del: serverAddressLoop.simps)
  finally show "serverAddressLoop env ip (ServerAddressByClientCIDRs (Spec c)) =
              Inr (ServerAddress item)"
    using assms(2) by simp
qed

text \<open>
  The theorem at a list whose second CIDR string is malformed and whose third
  network contains the host address, and at the list with these two exchanged.
\<close>

theorem NewClusterClientSet_malformed_witness:
  "NewClusterClientSet configured_env
     (cluster_of
        [\<lparr>ClientCIDR = ''192.168.0.0/16'', ServerAddress = ''https://192.168.0.1''\<rparr>,
         \<lparr>ClientCIDR = ''bad'', ServerAddress = ''https://10.0.0.1''\<rparr>,
         \<lparr>ClientCIDR = ''10.0.0.0/8'', ServerAddress = ''https://10.0.0.1''\<rparr>])
     = Returns (None, Some (Error ''invalid CIDR address: bad''))
   \<and> serverAddressLoop configured_env (ipv4 10 1 2 3)
     (ServerAddressByClientCIDRs (Spec (cluster_of
        [\<lparr>ClientCIDR = ''192.168.0.0/16'', ServerAddress = ''https://192.168.0.1''\<rparr>,
         \<lparr>ClientCIDR = ''10.0.0.0/8'', ServerAddress = ''https://10.0.0.1''\<rparr>,
         \<lparr>ClientCIDR = ''bad'', ServerAddress = ''https://10.0.0.1''\<rparr>])))
     = Inr ''https://10.0.0.1''"
proof -
  let ?a = "\<lparr>ClientCIDR = ''192.168.0.0/16'', ServerAddress = ''https://192.168.0.1''\<rparr>"
  let ?b = "\<lparr>ClientCIDR = ''bad'', ServerAddress = ''https://10.0.0.1''\<rparr>"
  let ?c = "\<lparr>ClientCIDR = ''10.0.0.0/8'', ServerAddress = ''https://10.0.0.1''\<rparr>"
  have 1: "ChooseHostInterface configured_env = Inr (ipv4 10 1 2 3)"
    by (rule env_fields)
  have 2: "ServerAddressByClientCIDRs (Spec (cluster_of [?a, ?b, ?c])) = [?a] @ ?b # [?c]"
    by (simp add: cluster_of_def)
  have 3: "\<forall>p\<in>set [?a]. cidrParses configured_env (ClientCIDR p)
             \<and> \<not> cidrContains configured_env (ipv4 10 1 2 3) (ClientCIDR p)"
    by (simp add: cidr_examples configured_env_def)
  have 4: "ParseCIDR configured_env (ClientCIDR ?b) = Inl (Error ''invalid CIDR address: bad'')"
    by (simp add: env_fields parse_examples)
  have 5: "ServerAddressByClientCIDRs (Spec (cluster_of [?a, ?c, ?b])) = [?a] @ ?c # [?b]"
    by (simp add: cluster_of_def)
  have 6: "cidrContains configured_env (ipv4 10 1 2 3) (ClientCIDR ?c)"
    by (simp add: cidr_examples configured_env_def)
  from NewClusterClientSet_malformed [OF 1 2 3] 4
  have x: "NewClusterClientSet configured_env (cluster_of [?a, ?b, ?c])
     = Returns (None, Some (Error ''invalid CIDR address: bad''))"
    by blast
  from NewClusterClientSet_malformed [OF 1 5 3] 6
  have y: "serverAddressLoop configured_env (ipv4 10 1 2 3)
     (ServerAddressByClientCIDRs (Spec (cluster_of [?a, ?c, ?b]))) = Inr ''https://10.0.0.1''"
    by simp
  from x y show ?thesis by blast
qed

text \<open>
  C7 as stated fails: the list contains a malformed CIDR string after the matching
  pair, and the client is built without any error.
\<close>

theorem NewClusterClientSet_malformed_counterexample:
  "ParseCIDR configured_env ''bad'' = Inl (Error ''invalid CIDR address: bad'')
   \<and> NewClusterClientSet configured_env
     (cluster_of
        [\<lparr>ClientCIDR = ''10.0.0.0/8'', ServerAddress = ''https://10.0.0.1''\<rparr>,
         \<lparr>ClientCIDR = ''bad'', ServerAddress = ''https://192.168.0.1''\<rparr>])
     = Returns
         (Some \<lparr>discoveryClient =
                   Some \<lparr>QPS = 20, Burst = 30,
                         profile = (''https://10.0.0.1'', ''apiVersion: v1'', ''Cluster-Controller'')\<rparr>,
                 kubeClient =
                   Some \<lparr>QPS = 20, Burst = 30,
                         profile = (''https://10.0.0.1'', ''apiVersion: v1'', ''Cluster-Controller'')\<rparr>\<rparr>,
          None)"
proof -
  have "serverAddressLoop configured_env (ipv4 10 1 2 3)
     [\<lparr>ClientCIDR = ''10.0.0.0/8'', ServerAddress = ''https://10.0.0.1''\<rparr>,
      \<lparr>ClientCIDR = ''bad'', ServerAddress = ''https://192.168.0.1''\<rparr>] = Inr ''https://10.0.0.1''"
    using cidr_examples(1,5) [of "Inr (ipv4 10 1 2 3)"]
    by (simp add: serverAddressLoop_item configured_env_def del: serverAddressLoop.simps)
  then show ?thesis
    by (simp add: NewClusterClientSet_def env_fields parse_examples cluster_of_def
        BuildConfigFromKubeconfigGetter_def)
      (simp add: configured_env_def ipv4_env_def KubeAPIQPS_def KubeAPIBurst_def UserAgentName_def
        Let_def)
qed

text \<open>
  C1. The claim is that a spec none of whose networks contains the host address gives
  the \<^verbatim>\<open>nil\<close> client and the \<^verbatim>\<open>nil\<close> error. The code does not do so: on the host
  10.1.2.3, for a list whose only network does not contain the address and for the
  empty list, \<^verbatim>\<open>NewClusterClientSet\<close> leaves the guarded block out and returns a client
  that is not \<^verbatim>\<open>nil\<close> and has neither handle, with the \<^verbatim>\<open>nil\<close> error, where its own
  checks inside the block return the \<^verbatim>\<open>nil\<close> client for a \<^verbatim>\<open>nil\<close> handle. The same
  return is reached when the matching pair has an empty server address, also with a
  credential resolver that fails.
\<close>

theorem NewClusterClientSet_no_endpoint_returns_client:
  "\<not> cidrContains configured_env (ipv4 10 1 2 3) ''192.168.0.0/16''
   \<and> NewClusterClientSet configured_env
       (cluster_of [\<lparr>ClientCIDR = ''192.168.0.0/16'', ServerAddress = ''https://192.168.0.1''\<rparr>])
     = Returns (Some \<lparr>discoveryClient = None, kubeClient = None\<rparr>, None)
   \<and> NewClusterClientSet configured_env (cluster_of [])
     = Returns (Some \<lparr>discoveryClient = None, kubeClient = None\<rparr>, None)
   \<and> cidrContains unconfigured_env (ipv4 10 1 2 3) ''10.0.0.0/8''
   \<and> KubeconfigGetterVar unconfigured_env
       (cluster_of [\<lparr>ClientCIDR = ''10.0.0.0/8'', ServerAddress = []\<rparr>]) ()
     = Inl (Error ''unexpected: POD_NAMESPACE env var returned empty string'')
   \<and> NewClusterClientSet unconfigured_env
       (cluster_of [\<lparr>ClientCIDR = ''10.0.0.0/8'', ServerAddress = []\<rparr>])
     = Returns (Some \<lparr>discoveryClient = None, kubeClient = None\<rparr>, None)"
proof -
  have c: "\<not> cidrContains configured_env (ipv4 10 1 2 3) ''192.168.0.0/16''"
    by (simp add: cidr_examples configured_env_def)
  have p: "cidrParses configured_env ''192.168.0.0/16''"
    by (simp add: cidr_examples configured_env_def)
  have "serverAddressLoop configured_env (ipv4 10 1 2 3)
     [\<lparr>ClientCIDR = ''192.168.0.0/16'', ServerAddress = ''https://192.168.0.1''\<rparr>] = Inr []"
    using c p by (simp add: serverAddressLoop_item del: serverAddressLoop.simps(2))
  then have a: "NewClusterClientSet configured_env
     (cluster_of [\<lparr>ClientCIDR = ''192.168.0.0/16'', ServerAddress = ''https://192.168.0.1''\<rparr>])
     = Returns (Some \<lparr>discoveryClient = None, kubeClient = None\<rparr>, None)"
    by (simp add: NewClusterClientSet_def env_fields cluster_of_def)
  have b: "NewClusterClientSet configured_env (cluster_of [])
     = Returns (Some \<lparr>discoveryClient = None, kubeClient = None\<rparr>, None)"
    by (simp add: NewClusterClientSet_def env_fields cluster_of_def)
  have d: "cidrContains unconfigured_env (ipv4 10 1 2 3) ''10.0.0.0/8''"
    by (simp add: cidr_examples unconfigured_env_def)
  have q: "cidrParses unconfigured_env ''10.0.0.0/8''"
    by (simp add: cidr_examples unconfigured_env_def)
  have "serverAddressLoop unconfigured_env (ipv4 10 1 2 3)
     [\<lparr>ClientCIDR = ''10.0.0.0/8'', ServerAddress = []\<rparr>] = Inr []"
    using d q by (simp add: serverAddressLoop_item del: serverAddressLoop.simps(2))
  then have e: "NewClusterClientSet unconfigured_env
       (cluster_of [\<lparr>ClientCIDR = ''10.0.0.0/8'', ServerAddress = []\<rparr>])
     = Returns (Some \<lparr>discoveryClient = None, kubeClient = None\<rparr>, None)"
    by (simp add: NewClusterClientSet_def env_fields cluster_of_def)
  have g: "KubeconfigGetterVar unconfigured_env
       (cluster_of [\<lparr>ClientCIDR = ''10.0.0.0/8'', ServerAddress = []\<rparr>]) ()
     = Inl (Error ''unexpected: POD_NAMESPACE env var returned empty string'')"
    by (rule env_fields)
  from a b c d e g show ?thesis by blast
qed

end
